theory Spec2Isabelle
  imports Main
begin

section \<open>Python values, strings and errors\<close>

text \<open>
  The program is one Python script (app.py): a class \<open>DatabaseManager\<close> over two SQLite
  tables, a class \<open>CareerChatbot\<close> that builds a prompt and calls a hosted model, and
  the handlers of a Streamlit page. Python strings are modelled as \<open>string\<close>; one
  \<open>char\<close> stands for one code point below 256. Exceptions are values of \<open>error\<close>.
\<close>

datatype error =
    KeyError string
  | IntegrityError string
  | ModelError string

text \<open>
  The values the script stores in its history dictionaries: \<open>str\<close> and \<open>int\<close>. A
  dictionary is a map from keys to values; reading a missing key raises \<open>KeyError\<close>.
\<close>

datatype pyval = PStr string | PInt int

type_synonym pydict = "string \<rightharpoonup> pyval"

abbreviation nl :: string where
  "nl \<equiv> [CHR 0x0A]"

fun digit_chars :: "nat \<Rightarrow> string" where
  "digit_chars n =
     (if n < 10 then [''0123456789'' ! n]
      else digit_chars (n div 10) @ [''0123456789'' ! (n mod 10)])"

declare digit_chars.simps [simp del]

text \<open>\<open>str(v)\<close>, which an f-string applies to each interpolated value.\<close>

fun py_str :: "pyval \<Rightarrow> string" where
  "py_str (PStr s) = s"
| "py_str (PInt i) = (if i < 0 then CHR ''-'' # digit_chars (nat (- i)) else digit_chars (nat i))"

text \<open>
  \<open>str.isspace\<close> on the code points below 256: tab, line feed, vertical tab, form feed,
  carriage return, the separators 0x1C to 0x1F, space, NEL and the no-break space.
\<close>

definition py_isspace :: "char \<Rightarrow> bool" where
  "py_isspace c \<longleftrightarrow>
     c \<in> set [CHR 0x09, CHR 0x0A, CHR 0x0B, CHR 0x0C, CHR 0x0D, CHR 0x1C, CHR 0x1D,
              CHR 0x1E, CHR 0x1F, CHR 0x20, CHR 0x85, CHR 0xA0]"

text \<open>\<open>s.strip()\<close>: leading and trailing whitespace removed.\<close>

definition strip :: "string \<Rightarrow> string" where
  "strip s = rev (dropWhile py_isspace (rev (dropWhile py_isspace s)))"

section \<open>The database\<close>

text \<open>
  \<open>_create_tables\<close> declares \<open>users (id AUTOINCREMENT, username UNIQUE, password_hash)\<close>
  and \<open>chat_history (id AUTOINCREMENT, user_id, message, is_user, timestamp)\<close>. A table
  is the list of its rows in rowid order together with its AUTOINCREMENT counter (the
  largest id handed out so far). Rows are never deleted or updated by the script.
\<close>

record user_row =
  u_id :: int
  u_username :: string
  u_password_hash :: string

record chat_row =
  c_id :: int
  c_user_id :: int
  c_message :: string
  c_is_user :: int
  c_timestamp :: string

record database =
  tbl_users :: "user_row list"
  seq_users :: int
  tbl_chat_history :: "chat_row list"
  seq_chat_history :: int

definition create_tables :: database where
  "create_tables =
     \<lparr>tbl_users = [], seq_users = 0, tbl_chat_history = [], seq_chat_history = 0\<rparr>"

text \<open>
  A connection sees its own uncommitted writes (\<open>working\<close>); every other reader sees the
  committed contents. The sqlite3 module opens a transaction before the first INSERT
  and keeps it until \<open>commit\<close>; a connection dropped without \<open>commit\<close> leaves the
  committed contents as they were.
\<close>

record connection =
  committed :: database
  working :: database

definition connect :: "database \<Rightarrow> connection" where
  "connect d = \<lparr>committed = d, working = d\<rparr>"

definition commit :: "connection \<Rightarrow> connection" where
  "commit c = c\<lparr>committed := working c\<rparr>"

definition close :: "connection \<Rightarrow> database" where
  "close c = committed c"

text \<open>\<open>INSERT INTO users (username, password_hash) VALUES (?, ?)\<close>, with the UNIQUE check.\<close>

definition insert_user :: "connection \<Rightarrow> string \<Rightarrow> string \<Rightarrow> error + connection" where
  "insert_user c username ph =
     (let d = working c in
      if username \<in> set (map u_username (tbl_users d))
      then Inl (IntegrityError ''UNIQUE constraint failed: users.username'')
      else Inr (c\<lparr>working := d\<lparr>
             tbl_users := tbl_users d @
               [\<lparr>u_id = seq_users d + 1, u_username = username, u_password_hash = ph\<rparr>],
             seq_users := seq_users d + 1\<rparr>\<rparr>))"

text \<open>\<open>INSERT INTO chat_history (user_id, message, is_user) VALUES (?, ?, flag)\<close>; the
  timestamp column takes CURRENT_TIMESTAMP, passed in as \<open>now\<close>.\<close>

definition insert_chat :: "connection \<Rightarrow> int \<Rightarrow> string \<Rightarrow> int \<Rightarrow> string \<Rightarrow> connection" where
  "insert_chat c user_id msg flag now =
     (let d = working c in
      c\<lparr>working := d\<lparr>
        tbl_chat_history := tbl_chat_history d @
          [\<lparr>c_id = seq_chat_history d + 1, c_user_id = user_id, c_message = msg,
            c_is_user = flag, c_timestamp = now\<rparr>],
        seq_chat_history := seq_chat_history d + 1\<rparr>\<rparr>)"

section \<open>DatabaseManager\<close>

text \<open>
  \<open>hash_password\<close> is \<open>hashlib.sha256(pwd.encode()).hexdigest()\<close>. The library
  function is not part of the script: \<open>sha256_hex\<close>, from a password to the hex digest
  of its encoding, is a parameter of the model.
\<close>

definition hash_password :: "(string \<Rightarrow> string) \<Rightarrow> string \<Rightarrow> string" where
  "hash_password sha256_hex pwd = sha256_hex pwd"

text \<open>
  \<open>create_user\<close>: the INSERT and the commit inside \<open>try\<close>; any exception gives
  \<open>False\<close>, and the connection is dropped uncommitted.
\<close>

definition create_user ::
  "(string \<Rightarrow> string) \<Rightarrow> database \<Rightarrow> string \<Rightarrow> string \<Rightarrow> bool \<times> database" where
  "create_user sha256_hex d username pwd =
     (case insert_user (connect d) username (hash_password sha256_hex pwd) of
        Inl e \<Rightarrow> (False, d)
      | Inr c \<Rightarrow> (True, close (commit c)))"

record account =
  acc_id :: int
  acc_username :: string

text \<open>\<open>authenticate_user\<close>: \<open>fetchone\<close> is the first row of the SELECT, or \<open>None\<close>.\<close>

definition authenticate_user ::
  "(string \<Rightarrow> string) \<Rightarrow> database \<Rightarrow> string \<Rightarrow> string \<Rightarrow> account option" where
  "authenticate_user sha256_hex d username pwd =
     (case filter (\<lambda>r. u_username r = username) (tbl_users d) of
        [] \<Rightarrow> None
      | row # _ \<Rightarrow>
          if u_password_hash row = hash_password sha256_hex pwd
          then Some \<lparr>acc_id = u_id row, acc_username = u_username row\<rparr>
          else None)"

text \<open>\<open>save_chat\<close>: two INSERTs, the user's message then the reply, and one commit.\<close>

definition save_chat ::
  "database \<Rightarrow> string \<times> string \<Rightarrow> int \<Rightarrow> string \<Rightarrow> string \<Rightarrow> database" where
  "save_chat d now user_id msg resp =
     close (commit (insert_chat (insert_chat (connect d) user_id msg 1 (fst now))
                      user_id resp 0 (snd now)))"

text \<open>The dictionary \<open>get_chat_history\<close> builds from a row.\<close>

definition history_record :: "string \<Rightarrow> int \<Rightarrow> string \<Rightarrow> pydict" where
  "history_record m flag ts =
     [''message'' \<mapsto> PStr m, ''is_user'' \<mapsto> PInt flag, ''timestamp'' \<mapsto> PStr ts]"

text \<open>\<open>SELECT ... FROM chat_history WHERE user_id=? ORDER BY id ASC\<close>.\<close>

definition select_chat_history :: "database \<Rightarrow> int \<Rightarrow> chat_row list" where
  "select_chat_history d user_id =
     sort_key c_id (filter (\<lambda>r. c_user_id r = user_id) (tbl_chat_history d))"

text \<open>\<open>get_chat_history\<close>: one dictionary for each selected row, in the order of the rows.\<close>

definition get_chat_history :: "database \<Rightarrow> int \<Rightarrow> pydict list" where
  "get_chat_history d user_id =
     map (\<lambda>r. history_record (c_message r) (c_is_user r) (c_timestamp r))
       (select_chat_history d user_id)"

section \<open>CareerChatbot\<close>

text \<open>
  The loop of \<open>get_response\<close> over \<open>history[-3:]\<close>: each entry \<open>h\<close> adds
  \<open>f"User: {h['message']}\nAssistant: {h['response']}\n"\<close> to the context. The f-string
  reads \<open>h['message']\<close> first, then \<open>h['response']\<close>.
\<close>

fun context_loop :: "string \<Rightarrow> pydict list \<Rightarrow> error + string" where
  "context_loop context [] = Inr context"
| "context_loop context (h # hs) =
     (case h ''message'' of
        None \<Rightarrow> Inl (KeyError ''message'')
      | Some m \<Rightarrow>
          (case h ''response'' of
             None \<Rightarrow> Inl (KeyError ''response'')
           | Some r \<Rightarrow>
               context_loop
                 (context @ ''User: '' @ py_str m @ nl @ ''Assistant: '' @ py_str r @ nl) hs))"

text \<open>
  The prompt text \<open>get_response\<close> assembles before it calls the model, starting from
  the literal of line 184. \<open>history\<close> is optional; \<open>if history:\<close> skips the loop for
  \<open>None\<close> and for the empty list.
\<close>

definition system_preamble :: string where
  "system_preamble = ''You are a helpful career counsellor.'' @ nl"

definition build_context :: "string \<Rightarrow> pydict list option \<Rightarrow> error + string" where
  "build_context message history =
     (let context = system_preamble in
      case (case history of
              None \<Rightarrow> Inr context
            | Some hs \<Rightarrow>
                if hs = [] then Inr context else context_loop context (drop (length hs - 3) hs))
      of Inl e \<Rightarrow> Inl e
       | Inr context' \<Rightarrow> Inr (context' @ ''User: '' @ message @ nl @ ''Assistant:''))"

text \<open>
  \<open>self.model.generate_content(context)\<close> followed by \<open>resp.text\<close> is the parameter
  \<open>generate\<close>: it returns the reply text or raises. \<open>get_response\<close> returns its result
  together with the prompts it handed to the model, in order.
\<close>

definition get_response ::
  "(string \<Rightarrow> error + string) \<Rightarrow> string \<Rightarrow> pydict list option
     \<Rightarrow> (error + string) \<times> string list" where
  "get_response generate message history =
     (case build_context message history of
        Inl e \<Rightarrow> (Inl e, [])
      | Inr context \<Rightarrow>
          (case generate context of
             Inl e \<Rightarrow> (Inl e, [context])
           | Inr text \<Rightarrow> (Inr (strip text), [context])))"

section \<open>Session state and the page's handlers\<close>

text \<open>
  \<open>st.session_state\<close> holds the database manager, the logged-in user, the popup flag
  and the in-memory history. \<open>ss_prompts\<close> records every prompt sent to the model.
\<close>

record session_state =
  ss_db :: database
  ss_user :: "account option"
  ss_chat_open :: bool
  ss_chat_history :: "pydict list"
  ss_prompts :: "string list"

definition initial_session :: session_state where
  "initial_session =
     \<lparr>ss_db = create_tables, ss_user = None, ss_chat_open = False, ss_chat_history = [],
      ss_prompts = []\<rparr>"

datatype notice = Success string | Error string

text \<open>The Login button; the form is shown only while nobody is logged in.\<close>

definition login_handler ::
  "(string \<Rightarrow> string) \<Rightarrow> session_state \<Rightarrow> string \<Rightarrow> string \<Rightarrow> notice option \<times> session_state" where
  "login_handler sha256_hex s u p =
     (if ss_user s = None then
        (case authenticate_user sha256_hex (ss_db s) u p of
           Some usr \<Rightarrow>
             (Some (Success ''Logged in!''),
              s\<lparr>ss_user := Some usr,
                ss_chat_history := get_chat_history (ss_db s) (acc_id usr)\<rparr>)
         | None \<Rightarrow> (Some (Error ''Invalid login''), s))
      else (None, s))"

text \<open>The Sign Up button.\<close>

definition signup_handler ::
  "(string \<Rightarrow> string) \<Rightarrow> session_state \<Rightarrow> string \<Rightarrow> string \<Rightarrow> notice option \<times> session_state" where
  "signup_handler sha256_hex s u p =
     (if ss_user s = None then
        (case create_user sha256_hex (ss_db s) u p of
           (True, d) \<Rightarrow> (Some (Success ''Account created! Please login.''), s\<lparr>ss_db := d\<rparr>)
         | (False, d) \<Rightarrow> (Some (Error ''Username exists''), s\<lparr>ss_db := d\<rparr>))
      else (None, s))"

text \<open>The Logout button.\<close>

definition logout_handler :: "session_state \<Rightarrow> notice option \<times> session_state" where
  "logout_handler s =
     (if ss_user s = None then (None, s)
      else (Some (Success ''Logged out successfully!''),
            s\<lparr>ss_user := None, ss_chat_history := []\<rparr>))"

text \<open>The toggle button of the popup.\<close>

definition toggle_handler :: "session_state \<Rightarrow> session_state" where
  "toggle_handler s =
     (if ss_user s = None then s else s\<lparr>ss_chat_open := \<not> ss_chat_open s\<rparr>)"

text \<open>The dictionary the Send handler appends to the in-memory history.\<close>

definition exchange_record :: "string \<Rightarrow> string \<Rightarrow> pydict" where
  "exchange_record msg resp = [''message'' \<mapsto> PStr msg, ''response'' \<mapsto> PStr resp]"

text \<open>
  The Send button, lines 270 to 275: nothing happens for a message whose \<open>strip()\<close> is
  empty; otherwise the reply is fetched, the exchange is appended to the in-memory
  history and then saved. An exception leaves the handler at the call that raised it.
  The button exists only for a logged-in user with the popup open.
\<close>

definition send_handler ::
  "(string \<Rightarrow> error + string) \<Rightarrow> string \<times> string \<Rightarrow> session_state \<Rightarrow> string
     \<Rightarrow> (error + unit) \<times> session_state" where
  "send_handler generate now s msg =
     (case ss_user s of
        None \<Rightarrow> (Inr (), s)
      | Some usr \<Rightarrow>
          if \<not> ss_chat_open s then (Inr (), s)
          else if strip msg \<noteq> [] then
            (case get_response generate msg (Some (ss_chat_history s)) of
               (Inl e, sent) \<Rightarrow> (Inl e, s\<lparr>ss_prompts := ss_prompts s @ sent\<rparr>)
             | (Inr resp, sent) \<Rightarrow>
                 (Inr (),
                  s\<lparr>ss_prompts := ss_prompts s @ sent,
                    ss_chat_history := ss_chat_history s @ [exchange_record msg resp],
                    ss_db := save_chat (ss_db s) now (acc_id usr) msg resp\<rparr>))
          else (Inr (), s))"

section \<open>Runs of the store\<close>

text \<open>
  The two operations that write to the database, as values, and the database reached
  by a sequence of them. Every state of the store is \<open>run\<close> of some sequence from
  \<open>create_tables\<close>.
\<close>

datatype db_op =
    CreateUser string string
  | SaveChat "string \<times> string" int string string

fun apply_op :: "(string \<Rightarrow> string) \<Rightarrow> database \<Rightarrow> db_op \<Rightarrow> database" where
  "apply_op sha256_hex d (CreateUser username pwd) = snd (create_user sha256_hex d username pwd)"
| "apply_op sha256_hex d (SaveChat now user_id msg resp) = save_chat d now user_id msg resp"

definition run :: "(string \<Rightarrow> string) \<Rightarrow> db_op list \<Rightarrow> database \<Rightarrow> database" where
  "run sha256_hex ops d = foldl (apply_op sha256_hex) d ops"

text \<open>The \<open>save_chat\<close> calls of a sequence made for one account, in call order.\<close>

fun calls_for :: "int \<Rightarrow> db_op list \<Rightarrow> ((string \<times> string) \<times> string \<times> string) list" where
  "calls_for uid [] = []"
| "calls_for uid (CreateUser username pwd # ops) = calls_for uid ops"
| "calls_for uid (SaveChat now user_id msg resp # ops) =
     (if user_id = uid then (now, msg, resp) # calls_for uid ops else calls_for uid ops)"

text \<open>
  The two dictionaries a history is expected to hold for one \<open>save_chat\<close> call, written
  out key by key: the user's message with \<open>is_user\<close> 1 and the time of the first INSERT,
  then the reply with \<open>is_user\<close> 0 and the time of the second.
\<close>

fun pair_records :: "(string \<times> string) \<times> string \<times> string \<Rightarrow> pydict list" where
  "pair_records (now, msg, resp) =
     [[''message'' \<mapsto> PStr msg, ''is_user'' \<mapsto> PInt 1, ''timestamp'' \<mapsto> PStr (fst now)],
      [''message'' \<mapsto> PStr resp, ''is_user'' \<mapsto> PInt 0, ''timestamp'' \<mapsto> PStr (snd now)]]"

text \<open>A sequence without the \<open>save_chat\<close> calls made for one account.\<close>

fun other_than :: "int \<Rightarrow> db_op \<Rightarrow> bool" where
  "other_than uid (CreateUser username pwd) = True"
| "other_than uid (SaveChat now user_id msg resp) = (user_id \<noteq> uid)"

text \<open>
  The states a \<open>save_chat\<close> call passes through: connected, after the first INSERT,
  after the second, after the commit. Other readers see \<open>committed\<close> of each.
\<close>

definition save_chat_steps ::
  "database \<Rightarrow> string \<times> string \<Rightarrow> int \<Rightarrow> string \<Rightarrow> string \<Rightarrow> connection list" where
  "save_chat_steps d now user_id msg resp =
     (let c0 = connect d;
          c1 = insert_chat c0 user_id msg 1 (fst now);
          c2 = insert_chat c1 user_id resp 0 (snd now);
          c3 = commit c2
      in [c0, c1, c2, c3])"

text \<open>
  A table of message rows made of whole pairs: a user row, then the assistant row of
  the same account with the next id.
\<close>

fun paired :: "chat_row list \<Rightarrow> bool" where
  "paired [] = True"
| "paired [u] = False"
| "paired (u # a # rows) =
     (c_is_user u = 1 \<and> c_is_user a = 0 \<and> c_user_id a = c_user_id u \<and>
      c_id a = c_id u + 1 \<and> paired rows)"

text \<open>The same, read row by row: what precedes an assistant row, what follows a user row.\<close>

definition assistant_preceded :: "chat_row list \<Rightarrow> nat \<Rightarrow> bool" where
  "assistant_preceded rows i \<longleftrightarrow>
     0 < i \<and> c_is_user (rows ! (i - 1)) = 1 \<and>
     c_user_id (rows ! (i - 1)) = c_user_id (rows ! i) \<and>
     c_id (rows ! i) = c_id (rows ! (i - 1)) + 1"

definition user_followed :: "chat_row list \<Rightarrow> nat \<Rightarrow> bool" where
  "user_followed rows i \<longleftrightarrow>
     Suc i < length rows \<and> c_is_user (rows ! Suc i) = 0 \<and>
     c_user_id (rows ! Suc i) = c_user_id (rows ! i) \<and>
     c_id (rows ! Suc i) = c_id (rows ! i) + 1"

text \<open>
  The ids of the message table ascend with the rows and stay below the AUTOINCREMENT
  counter; every write keeps it so.
\<close>

definition chat_ids_ok :: "database \<Rightarrow> bool" where
  "chat_ids_ok d \<longleftrightarrow>
     sorted (map c_id (tbl_chat_history d)) \<and>
     (\<forall>r\<in>set (tbl_chat_history d). c_id r \<le> seq_chat_history d)"

text \<open>The two shapes of history dictionary the script builds, by their keys.\<close>

definition store_shape :: "pydict \<Rightarrow> bool" where
  "store_shape h \<longleftrightarrow> dom h = {''message'', ''is_user'', ''timestamp''}"

definition session_shape :: "pydict \<Rightarrow> bool" where
  "session_shape h \<longleftrightarrow> dom h = {''message'', ''response''}"

text \<open>The two lines of the prompt for one exchange.\<close>

fun exchange_lines :: "string \<times> string \<Rightarrow> string" where
  "exchange_lines (msg, resp) = ''User: '' @ msg @ nl @ ''Assistant: '' @ resp @ nl"

text \<open>
  A digest to instantiate \<open>sha256_hex\<close> with where a concrete one is needed; it is
  injective.
\<close>

definition sample_digest :: "string \<Rightarrow> string" where
  "sample_digest pwd = ''sha256:'' @ pwd"

text \<open>
  A second one with outputs of 64 characters, the length of a SHA-256 hex digest; two
  passwords that agree after padding with zeros share its digest.
\<close>

definition padded_digest :: "string \<Rightarrow> string" where
  "padded_digest pwd = take 64 (pwd @ replicate 64 (CHR ''0''))"

section \<open>Facts about the database operations\<close>

lemma create_user_cases:
  "create_user H d u p =
     (if u \<in> set (map u_username (tbl_users d)) then (False, d)
      else (True, d\<lparr>tbl_users := tbl_users d @
                       [\<lparr>u_id = seq_users d + 1, u_username = u, u_password_hash = H p\<rparr>],
                     seq_users := seq_users d + 1\<rparr>))"
  by (simp add: create_user_def insert_user_def connect_def commit_def close_def
      hash_password_def Let_def)

lemma save_chat_eq:
  "save_chat d now uid m r =
     d\<lparr>tbl_chat_history := tbl_chat_history d @
          [\<lparr>c_id = seq_chat_history d + 1, c_user_id = uid, c_message = m, c_is_user = 1,
            c_timestamp = fst now\<rparr>,
           \<lparr>c_id = seq_chat_history d + 2, c_user_id = uid, c_message = r, c_is_user = 0,
            c_timestamp = snd now\<rparr>],
        seq_chat_history := seq_chat_history d + 2\<rparr>"
  by (simp add: save_chat_def insert_chat_def connect_def commit_def close_def Let_def)

lemma inj_sample_digest: "inj sample_digest"
  by (simp add: inj_def sample_digest_def)

lemma users_filter_apply_op:
  assumes "filter (\<lambda>r. u_username r = u) (tbl_users d) \<noteq> []"
  shows "filter (\<lambda>r. u_username r = u) (tbl_users (apply_op H d op)) =
         filter (\<lambda>r. u_username r = u) (tbl_users d)"
proof (cases op)
  case (CreateUser u' p')
  from assms have "u \<in> set (map u_username (tbl_users d))"
    by (auto simp: filter_empty_conv)
  then show ?thesis using CreateUser by (auto simp: create_user_cases)
next
  case (SaveChat now uid m r)
  then show ?thesis by (simp add: save_chat_eq)
qed

lemma users_filter_run:
  "filter (\<lambda>r. u_username r = u) (tbl_users d) \<noteq> [] \<Longrightarrow>
   filter (\<lambda>r. u_username r = u) (tbl_users (run H ops d)) =
   filter (\<lambda>r. u_username r = u) (tbl_users d)"
proof (induction ops arbitrary: d)
  case Nil
  then show ?case by (simp add: run_def)
next
  case (Cons op ops)
  have step: "filter (\<lambda>r. u_username r = u) (tbl_users (apply_op H d op)) =
              filter (\<lambda>r. u_username r = u) (tbl_users d)"
    using Cons.prems by (rule users_filter_apply_op)
  with Cons.prems have "filter (\<lambda>r. u_username r = u) (tbl_users (apply_op H d op)) \<noteq> []"
    by simp
  from Cons.IH[OF this] step show ?case by (simp add: run_def)
qed

lemma strip_blank: "(\<forall>c\<in>set msg. py_isspace c) \<Longrightarrow> strip msg = []"
  by (auto simp: strip_def dest: set_dropWhileD)

lemma strip_blank_iff: "strip msg = [] \<longleftrightarrow> (\<forall>c\<in>set msg. py_isspace c)"
proof
  assume e: "strip msg = []"
  show "\<forall>c\<in>set msg. py_isspace c"
  proof (cases "dropWhile py_isspace msg")
    case Nil
    then show ?thesis by simp
  next
    case (Cons x xs)
    then have "\<not> py_isspace x" using hd_dropWhile[of py_isspace msg] by simp
    moreover from e Cons have "\<forall>y\<in>set (x # xs). py_isspace y"
      by (simp add: strip_def)
    ultimately show ?thesis by simp
  qed
next
  assume "\<forall>c\<in>set msg. py_isspace c"
  then show "strip msg = []" by (rule strip_blank)
qed

lemma chat_ids_ok_init: "chat_ids_ok create_tables"
  by (simp add: chat_ids_ok_def create_tables_def)

lemma chat_ids_ok_apply_op: "chat_ids_ok d \<Longrightarrow> chat_ids_ok (apply_op H d op)"
proof (cases op)
  case (CreateUser u p)
  assume "chat_ids_ok d"
  then show ?thesis using CreateUser by (simp add: chat_ids_ok_def create_user_cases)
next
  case (SaveChat now uid m r)
  assume "chat_ids_ok d"
  then show ?thesis using SaveChat
    by (fastforce simp: chat_ids_ok_def save_chat_eq sorted_append)
qed

lemma chat_ids_ok_run: "chat_ids_ok d \<Longrightarrow> chat_ids_ok (run H ops d)"
  by (induction ops arbitrary: d) (simp_all add: run_def chat_ids_ok_apply_op)

lemma history_sorted:
  assumes "chat_ids_ok d"
  shows "get_chat_history d uid =
         map (\<lambda>r. history_record (c_message r) (c_is_user r) (c_timestamp r))
           (filter (\<lambda>r. c_user_id r = uid) (tbl_chat_history d))"
proof -
  from assms have "sorted (map c_id (filter (\<lambda>r. c_user_id r = uid) (tbl_chat_history d)))"
    by (simp add: chat_ids_ok_def sorted_filter)
  then have "sort_key c_id (filter (\<lambda>r. c_user_id r = uid) (tbl_chat_history d)) =
             filter (\<lambda>r. c_user_id r = uid) (tbl_chat_history d)"
    by (rule sort_key_id_if_sorted)
  then show ?thesis by (simp add: get_chat_history_def select_chat_history_def)
qed

lemma history_apply_op:
  assumes "chat_ids_ok d"
  shows "get_chat_history (apply_op H d op) uid =
         get_chat_history d uid @ concat (map pair_records (calls_for uid [op]))"
proof (cases op)
  case (CreateUser u p)
  then show ?thesis
    by (simp add: get_chat_history_def select_chat_history_def create_user_cases)
next
  case (SaveChat now u m r)
  then show ?thesis
    using history_sorted[OF chat_ids_ok_apply_op[OF assms], of H op uid]
    by (simp add: history_sorted[OF assms] save_chat_eq history_record_def)
qed

lemma calls_for_append: "calls_for uid (xs @ ys) = calls_for uid xs @ calls_for uid ys"
  by (induction uid xs rule: calls_for.induct) auto

lemma history_run:
  "chat_ids_ok d \<Longrightarrow> get_chat_history (run H ops d) uid =
         get_chat_history d uid @ concat (map pair_records (calls_for uid ops))"
proof (induction ops arbitrary: d)
  case Nil
  then show ?case by (simp add: run_def)
next
  case (Cons op ops)
  have "get_chat_history (run H ops (apply_op H d op)) uid =
        get_chat_history (apply_op H d op) uid @ concat (map pair_records (calls_for uid ops))"
    by (rule Cons.IH[OF chat_ids_ok_apply_op[OF Cons.prems]])
  moreover have "calls_for uid (op # ops) = calls_for uid [op] @ calls_for uid ops"
    using calls_for_append[of uid "[op]" ops] by simp
  ultimately show ?case
    by (simp add: run_def history_apply_op[OF Cons.prems])
qed

lemma length_concat_pairs: "length (concat (map pair_records cs)) = 2 * length cs"
  by (induction cs) auto

lemma calls_for_filter: "A \<noteq> B \<Longrightarrow> calls_for A (filter (other_than B) ops) = calls_for A ops"
  by (induction A ops rule: calls_for.induct) auto

lemma paired_append: "paired xs \<Longrightarrow> paired (xs @ [u, a]) = (c_is_user u = 1 \<and> c_is_user a = 0 \<and> c_user_id a = c_user_id u \<and> c_id a = c_id u + 1)"
  by (induction xs rule: paired.induct) auto

lemma paired_apply_op: "paired (tbl_chat_history d) \<Longrightarrow> paired (tbl_chat_history (apply_op H d op))"
  by (cases op) (simp_all add: create_user_cases save_chat_eq paired_append)

lemma paired_run: "paired (tbl_chat_history d) \<Longrightarrow> paired (tbl_chat_history (run H ops d))"
  by (induction ops arbitrary: d) (simp_all add: run_def paired_apply_op)

lemma paired_index:
  "paired rows \<Longrightarrow> i < length rows \<Longrightarrow>
     (c_is_user (rows ! i) = 1 \<and> user_followed rows i) \<or>
     (c_is_user (rows ! i) = 0 \<and> assistant_preceded rows i)"
proof (induction rows arbitrary: i rule: paired.induct)
  case 1
  then show ?case by simp
next
  case (2 u)
  then show ?case by simp
next
  case (3 u a rows)
  show ?case
  proof (cases i)
    case 0
    with "3.prems" show ?thesis by (simp add: user_followed_def)
  next
    case (Suc j)
    show ?thesis
    proof (cases j)
      case 0
      with Suc "3.prems" show ?thesis by (simp add: assistant_preceded_def)
    next
      case (Suc k)
      with \<open>i = Suc j\<close> "3.prems" have k: "k < length rows" and p: "paired rows" by simp_all
      from "3.IH"[OF p k] show ?thesis
        unfolding \<open>i = Suc j\<close> \<open>j = Suc k\<close>
        by (auto simp: user_followed_def assistant_preceded_def nth_Cons')
    qed
  qed
qed

lemma steps_committed:
  "c \<in> set (save_chat_steps d now uid m r) \<Longrightarrow> committed c = d \<or> committed c = save_chat d now uid m r"
  by (auto simp: save_chat_steps_def save_chat_def Let_def connect_def insert_chat_def commit_def close_def)

lemma save_chat_last: "save_chat d now uid m r = close (last (save_chat_steps d now uid m r))"
  by (simp add: save_chat_steps_def save_chat_def Let_def)

lemma history_empty: "get_chat_history create_tables uid = []"
  by (simp add: get_chat_history_def select_chat_history_def create_tables_def)

lemma store_shape_keys:
  assumes "store_shape h"
  shows "h ''message'' \<noteq> None \<and> h ''response'' = None"
proof -
  from assms have d: "dom h = {''message'', ''is_user'', ''timestamp''}"
    by (simp only: store_shape_def)
  have "''message'' \<in> dom h" and "''response'' \<notin> dom h"
    unfolding d by simp_all
  then show ?thesis by (simp only: domIff) simp
qed

lemma session_shape_keys:
  assumes "session_shape h"
  shows "h ''message'' \<noteq> None \<and> h ''response'' \<noteq> None"
proof -
  from assms have d: "dom h = {''message'', ''response''}"
    by (simp only: session_shape_def)
  have "''message'' \<in> dom h" and "''response'' \<in> dom h"
    unfolding d by simp_all
  then show ?thesis by (simp only: domIff) simp
qed

lemma store_shape_history_record: "store_shape (history_record m f t)"
  by (auto simp: store_shape_def history_record_def)

lemma session_shape_exchange_record: "session_shape (exchange_record m r)"
  by (auto simp: session_shape_def exchange_record_def)

lemma context_loop_missing_response:
  "\<forall>h\<in>set hs. store_shape h \<or> session_shape h \<Longrightarrow> \<exists>h\<in>set hs. store_shape h \<Longrightarrow>
   context_loop ctx hs = Inl (KeyError ''response'')"
proof (induction hs arbitrary: ctx)
  case Nil
  then show ?case by simp
next
  case (Cons h hs)
  show ?case
  proof (cases "store_shape h")
    case True
    then show ?thesis using store_shape_keys[OF True] by auto
  next
    case False
    with Cons.prems have sh: "session_shape h" and ex: "\<exists>h\<in>set hs. store_shape h"
      and al: "\<forall>h\<in>set hs. store_shape h \<or> session_shape h" by auto
    from session_shape_keys[OF sh] obtain m r where "h ''message'' = Some m" "h ''response'' = Some r"
      by auto
    then show ?thesis using Cons.IH[OF al ex] by simp
  qed
qed

lemma context_loop_missing_key:
  "\<exists>h\<in>set hs. h ''response'' = None \<Longrightarrow> \<exists>key. context_loop ctx hs = Inl (KeyError key)"
proof (induction hs arbitrary: ctx)
  case Nil
  then show ?case by simp
next
  case (Cons h hs)
  show ?case
  proof (cases "h ''message''")
    case None
    then show ?thesis by simp
  next
    case (Some m)
    show ?thesis
    proof (cases "h ''response''")
      case None
      with Some show ?thesis by simp
    next
      case (Some r)
      with Cons.prems have "\<exists>h\<in>set hs. h ''response'' = None" by auto
      from Cons.IH[OF this] \<open>h ''message'' = Some m\<close> Some show ?thesis by simp
    qed
  qed
qed

lemma loaded_records_store_shape: "\<forall>h\<in>set (get_chat_history d uid). store_shape h"
  by (simp add: get_chat_history_def store_shape_history_record)

lemma context_loop_exchanges:
  "context_loop ctx (map (\<lambda>(m, r). exchange_record m r) xs) = Inr (ctx @ concat (map exchange_lines xs))"
  by (induction xs arbitrary: ctx) (auto simp: exchange_record_def)

lemma build_context_session_history:
  "build_context msg (Some (map (\<lambda>(m, r). exchange_record m r) xs)) =
     Inr (system_preamble @
          concat (map exchange_lines (drop (length xs - 3) xs)) @
          ''User: '' @ msg @ nl @ ''Assistant:'')"
proof (cases "xs = []")
  case True
  then show ?thesis by (simp add: build_context_def Let_def)
next
  case False
  have "drop (length xs - 3) (map (\<lambda>(m, r). exchange_record m r) xs) =
        map (\<lambda>(m, r). exchange_record m r) (drop (length xs - 3) xs)"
    by (simp add: drop_map)
  then show ?thesis using False
    by (simp add: build_context_def Let_def context_loop_exchanges)
qed

lemma build_context_no_history:
  "build_context msg None = Inr (system_preamble @ ''User: '' @ msg @ nl @ ''Assistant:'')"
  "build_context msg (Some []) = Inr (system_preamble @ ''User: '' @ msg @ nl @ ''Assistant:'')"
  by (simp_all add: build_context_def)

lemma padded_digest_collision: "padded_digest ''pw1230'' = padded_digest ''pw123''"
  by code_simp

lemma fixed_length_collision:
  fixes H :: "string \<Rightarrow> string"
  assumes "\<forall>p. length (H p) = n"
  shows "\<exists>p p'. p \<noteq> p' \<and> H p = H p'"
proof (rule ccontr)
  assume "\<not> (\<exists>p p'. p \<noteq> p' \<and> H p = H p')"
  then have "inj H" by (auto simp: inj_def)
  have "range H \<subseteq> {xs. set xs \<subseteq> (UNIV :: char set) \<and> length xs = n}"
    using assms by auto
  moreover have "finite {xs. set xs \<subseteq> (UNIV :: char set) \<and> length xs = n}"
    by (rule finite_lists_length_eq) simp
  ultimately have "finite (range H)" by (rule finite_subset)
  from this \<open>inj H\<close> have "finite (UNIV :: string set)" by (rule finite_imageD)
  moreover have "\<not> finite (UNIV :: string set)" by (rule infinite_UNIV_listI)
  ultimately show False by contradiction
qed

lemma authenticate_run:
  assumes "create_user H d username pwd = (True, d')"
  shows "authenticate_user H (run H ops d') username pwd' =
           (if H pwd' = H pwd
            then Some \<lparr>acc_id = seq_users d + 1, acc_username = username\<rparr> else None)"
proof -
  let ?row = "\<lparr>u_id = seq_users d + 1, u_username = username, u_password_hash = H pwd\<rparr>"
  from assms have fresh: "username \<notin> set (map u_username (tbl_users d))"
    and d': "tbl_users d' = tbl_users d @ [?row]"
    by (auto simp: create_user_cases split: if_splits)
  from fresh have "filter (\<lambda>r. u_username r = username) (tbl_users d) = []"
    by (auto simp: filter_empty_conv)
  with d' have sel: "filter (\<lambda>r. u_username r = username) (tbl_users d') = [?row]"
    by simp
  then have "filter (\<lambda>r. u_username r = username) (tbl_users (run H ops d')) = [?row]"
    using users_filter_run[of username d' H ops] by simp
  then show ?thesis
    by (auto simp: authenticate_user_def hash_password_def)
qed

section \<open>Account store\<close>

text \<open>
  C5: in every state where the username is already stored, \<open>create_user\<close> with that
  username fails: it returns \<open>False\<close> (the script's only failure value, which the Sign Up
  handler reports as "Username exists"), and the database, so the set of accounts and
  their number, is as before.
\<close>

theorem create_user_duplicate:
  assumes "username \<in> set (map u_username (tbl_users d))"
  shows "create_user H d username pwd = (False, d) \<and>
         insert_user (connect d) username (hash_password H pwd) =
           Inl (IntegrityError ''UNIQUE constraint failed: users.username'') \<and>
         set (tbl_users (snd (create_user H d username pwd))) = set (tbl_users d) \<and>
         length (tbl_users (snd (create_user H d username pwd))) = length (tbl_users d) \<and>
         (ss_user s = None \<and> ss_db s = d \<longrightarrow>
            signup_handler H s username pwd = (Some (Error ''Username exists''), s))"
  using assms
  by (auto simp: create_user_cases signup_handler_def insert_user_def connect_def Let_def)

theorem create_user_duplicate_witness:
  "''alice'' \<in> set (map u_username
      (tbl_users (snd (create_user sample_digest create_tables ''alice'' ''pw123'')))) \<and>
   create_user sample_digest (snd (create_user sample_digest create_tables ''alice'' ''pw123''))
      ''alice'' ''other'' =
     (False, snd (create_user sample_digest create_tables ''alice'' ''pw123'')) \<and>
   length (tbl_users (snd (create_user sample_digest
      (snd (create_user sample_digest create_tables ''alice'' ''pw123'')) ''alice'' ''other''))) = 1"
proof -
  let ?d = "snd (create_user sample_digest create_tables ''alice'' ''pw123'')"
  have h: "''alice'' \<in> set (map u_username (tbl_users ?d))"
    by (simp add: create_user_cases create_tables_def)
  have n: "length (tbl_users ?d) = 1"
    by (simp add: create_user_cases create_tables_def)
  from create_user_duplicate [OF h, of sample_digest "''other''"] h n show ?thesis
    by simp
qed

text \<open>
  C2, as the script has it: when \<open>create_user\<close> succeeds, \<open>authenticate_user\<close> with the
  same username and password returns the created account, in the state right after and
  in every state reached from it by further writes. With any other password it returns
  the account exactly when that password has the stored digest, and \<open>None\<close> otherwise:
  a password whose digest differs is always rejected.
\<close>

theorem authenticate_after_create:
  assumes "create_user H d username pwd = (True, d')"
  shows "authenticate_user H (run H ops d') username pwd =
           Some \<lparr>acc_id = seq_users d + 1, acc_username = username\<rparr> \<and>
         (\<forall>pwd'. authenticate_user H (run H ops d') username pwd' =
            (if H pwd' = H pwd
             then Some \<lparr>acc_id = seq_users d + 1, acc_username = username\<rparr> else None))"
  using authenticate_run[OF assms] by simp

theorem authenticate_after_create_witness:
  "create_user sample_digest create_tables ''alice'' ''pw123'' =
     (True, snd (create_user sample_digest create_tables ''alice'' ''pw123'')) \<and>
   authenticate_user sample_digest
     (run sample_digest [SaveChat (''t1'', ''t2'') 1 ''hi'' ''hello'', CreateUser ''bob'' ''pw123'']
        (snd (create_user sample_digest create_tables ''alice'' ''pw123''))) ''alice'' ''pw123'' =
     Some \<lparr>acc_id = 1, acc_username = ''alice''\<rparr> \<and>
   authenticate_user sample_digest
     (run sample_digest [SaveChat (''t1'', ''t2'') 1 ''hi'' ''hello'', CreateUser ''bob'' ''pw123'']
        (snd (create_user sample_digest create_tables ''alice'' ''pw123''))) ''alice'' ''pw124'' =
     None \<and>
   authenticate_user padded_digest
     (run padded_digest []
        (snd (create_user padded_digest create_tables ''alice'' ''pw123''))) ''alice'' ''pw1230'' =
     Some \<lparr>acc_id = 1, acc_username = ''alice''\<rparr>"
proof -
  let ?d' = "snd (create_user sample_digest create_tables ''alice'' ''pw123'')"
  have h: "create_user sample_digest create_tables ''alice'' ''pw123'' = (True, ?d')"
    by (simp add: create_user_cases create_tables_def)
  let ?ops = "[SaveChat (''t1'', ''t2'') 1 ''hi'' ''hello'', CreateUser ''bob'' ''pw123'']"
  note t = authenticate_after_create [OF h, of ?ops]
  have a: "authenticate_user sample_digest (run sample_digest ?ops ?d') ''alice'' ''pw123'' =
      Some \<lparr>acc_id = 1, acc_username = ''alice''\<rparr>"
    using t by (simp add: create_tables_def)
  have "authenticate_user sample_digest (run sample_digest ?ops ?d') ''alice'' ''pw124'' =
      (if sample_digest ''pw124'' = sample_digest ''pw123''
       then Some \<lparr>acc_id = seq_users create_tables + 1, acc_username = ''alice''\<rparr> else None)"
    using t by blast
  then have b: "authenticate_user sample_digest (run sample_digest ?ops ?d') ''alice'' ''pw124'' =
      None"
    by (simp add: sample_digest_def)
  let ?e' = "snd (create_user padded_digest create_tables ''alice'' ''pw123'')"
  have h': "create_user padded_digest create_tables ''alice'' ''pw123'' = (True, ?e')"
    by (simp add: create_user_cases create_tables_def)
  note t' = authenticate_after_create [OF h', of "[]"]
  have "authenticate_user padded_digest (run padded_digest [] ?e') ''alice'' ''pw1230'' =
      (if padded_digest ''pw1230'' = padded_digest ''pw123''
       then Some \<lparr>acc_id = seq_users create_tables + 1, acc_username = ''alice''\<rparr> else None)"
    using t' by blast
  then have c: "authenticate_user padded_digest (run padded_digest [] ?e') ''alice'' ''pw1230'' =
      Some \<lparr>acc_id = 1, acc_username = ''alice''\<rparr>"
    by (simp add: padded_digest_collision create_tables_def)
  show ?thesis using h a b c by (intro conjI)
qed

text \<open>
  C2 as stated fails on "any different password": a SHA-256 hex digest has 64
  characters, and no function with outputs of one fixed length rejects every different
  password. Two passwords share a digest, and the second logs in to the account
  created with the first.
\<close>

theorem digest_collision_logs_in:
  "\<not> (\<exists>H. (\<forall>p. length (H p) = 64) \<and>
          (\<forall>pwd pwd'. pwd' \<noteq> pwd \<longrightarrow>
             authenticate_user H (snd (create_user H create_tables ''alice'' pwd))
               ''alice'' pwd' = None))"
proof
  assume "\<exists>H. (\<forall>p. length (H p) = 64) \<and>
          (\<forall>pwd pwd'. pwd' \<noteq> pwd \<longrightarrow>
             authenticate_user H (snd (create_user H create_tables ''alice'' pwd))
               ''alice'' pwd' = None)"
  then obtain H where len: "\<forall>p. length (H p) = 64"
    and rej: "\<forall>pwd pwd'. pwd' \<noteq> pwd \<longrightarrow>
             authenticate_user H (snd (create_user H create_tables ''alice'' pwd))
               ''alice'' pwd' = None"
    by blast
  from fixed_length_collision[OF len] obtain p p' where ne: "p \<noteq> p'" and eq: "H p = H p'"
    by blast
  have c: "create_user H create_tables ''alice'' p =
           (True, snd (create_user H create_tables ''alice'' p))"
    by (simp add: create_user_cases create_tables_def)
  have "authenticate_user H (run H [] (snd (create_user H create_tables ''alice'' p)))
          ''alice'' p' =
        Some \<lparr>acc_id = seq_users create_tables + 1, acc_username = ''alice''\<rparr>"
    using authenticate_run[OF c, of "[]" p'] eq by simp
  then have "authenticate_user H (snd (create_user H create_tables ''alice'' p)) ''alice'' p' \<noteq>
             None"
    by (simp add: run_def)
  moreover have "authenticate_user H (snd (create_user H create_tables ''alice'' p))
                   ''alice'' p' = None"
    by (rule rej[rule_format, OF ne[symmetric]])
  ultimately show False by contradiction
qed

text \<open>
  C9, as the script has it: a successful \<open>create_user\<close> appends exactly one row, holding
  the next id, the username and \<open>hash_password pwd\<close>, and changes nothing else. The
  credential is the digest of the password alone: no salt enters it.
\<close>

theorem create_user_stores_digest:
  assumes "create_user H d username pwd = (True, d')"
  shows "d' = d\<lparr>tbl_users := tbl_users d @
                  [\<lparr>u_id = seq_users d + 1, u_username = username,
                    u_password_hash = hash_password H pwd\<rparr>],
                seq_users := seq_users d + 1\<rparr> \<and>
         hash_password H pwd = H pwd"
  using assms by (auto simp: create_user_cases hash_password_def split: if_splits)

theorem create_user_stores_digest_witness:
  "create_user sample_digest create_tables ''alice'' ''pw123'' =
     (True, snd (create_user sample_digest create_tables ''alice'' ''pw123'')) \<and>
   tbl_users (snd (create_user sample_digest create_tables ''alice'' ''pw123'')) =
     [\<lparr>u_id = 1, u_username = ''alice'', u_password_hash = ''sha256:pw123''\<rparr>]"
proof -
  let ?d' = "snd (create_user sample_digest create_tables ''alice'' ''pw123'')"
  have h: "create_user sample_digest create_tables ''alice'' ''pw123'' = (True, ?d')"
    by (simp add: create_user_cases create_tables_def)
  have r: "tbl_users ?d' =
      [\<lparr>u_id = 1, u_username = ''alice'', u_password_hash = ''sha256:pw123''\<rparr>]"
    using create_user_stores_digest [OF h]
    by (simp add: create_tables_def sample_digest_def hash_password_def)
  from h r show ?thesis ..
qed

text \<open>
  C9 as stated fails on "salted": two accounts created with the same password hold the
  same credential, whatever the digest function.
\<close>

theorem same_password_same_credential:
  "\<forall>H. map u_password_hash
         (tbl_users (run H [CreateUser ''alice'' ''pw123'', CreateUser ''bob'' ''pw123'']
            create_tables)) =
       [H ''pw123'', H ''pw123'']"
  by (simp add: run_def create_user_cases create_tables_def)

section \<open>Blank messages\<close>

text \<open>
  C6, as the script has it: for a message that is empty or only whitespace the Send
  handler does nothing. It returns normally with the session state unchanged: no
  prompt is built or sent to the model, nothing is appended or saved, and no error is
  raised.
\<close>

theorem send_blank_ignored:
  assumes "\<forall>c\<in>set msg. py_isspace c"
  shows "send_handler generate now s msg = (Inr (), s)"
  using strip_blank[OF assms] by (simp add: send_handler_def split: option.splits)

theorem send_blank_ignored_witness:
  "strip ('' '' @ nl) = [] \<and>
   send_handler (\<lambda>p. Inr ''Hello'') (''t1'', ''t2'')
     (initial_session\<lparr>ss_user := Some \<lparr>acc_id = 1, acc_username = ''alice''\<rparr>,
        ss_chat_open := True\<rparr>) ('' '' @ nl) =
     (Inr (), initial_session\<lparr>ss_user := Some \<lparr>acc_id = 1, acc_username = ''alice''\<rparr>,
        ss_chat_open := True\<rparr>)"
proof -
  have h: "\<forall>c\<in>set ('' '' @ nl). py_isspace c"
    by (simp add: py_isspace_def)
  from send_blank_ignored [OF h] strip_blank [OF h] show ?thesis
    by simp
qed

text \<open>
  C6 as stated fails: \<open>get_response\<close> itself accepts a whitespace-only message, builds
  the prompt and hands it to the model.
\<close>

theorem get_response_blank_forwarded:
  "get_response (\<lambda>p. Inr ''Hello'') ''  '' (Some []) =
     (Inr ''Hello'',
      [''You are a helpful career counsellor.'' @ nl @ ''User:   '' @ nl @ ''Assistant:''])"
  by (simp add: get_response_def build_context_def system_preamble_def strip_def
      py_isspace_def)

section \<open>Conversation store\<close>

text \<open>
  C3: after any sequence of writes from the empty database, \<open>get_chat_history\<close> for an
  account returns the records of exactly the \<open>save_chat\<close> calls made for it, two for
  each call (the dictionary of the user's message, then the dictionary of the reply),
  in call order: 2N records after N calls. An account with no calls gets the empty
  list, and one more call adds its two dictionaries at the end.
\<close>

theorem history_after_appends:
  "get_chat_history (run H ops create_tables) uid =
     concat (map pair_records (calls_for uid ops)) \<and>
   length (get_chat_history (run H ops create_tables) uid) = 2 * length (calls_for uid ops) \<and>
   (calls_for uid ops = [] \<longrightarrow> get_chat_history (run H ops create_tables) uid = []) \<and>
   get_chat_history (save_chat (run H ops create_tables) now uid msg resp) uid =
     get_chat_history (run H ops create_tables) uid @
     [[''message'' \<mapsto> PStr msg, ''is_user'' \<mapsto> PInt 1, ''timestamp'' \<mapsto> PStr (fst now)],
      [''message'' \<mapsto> PStr resp, ''is_user'' \<mapsto> PInt 0, ''timestamp'' \<mapsto> PStr (snd now)]]"
proof -
  have a: "get_chat_history (run H ops create_tables) uid =
           concat (map pair_records (calls_for uid ops))"
    by (simp add: history_run[OF chat_ids_ok_init] history_empty)
  have "get_chat_history (apply_op H (run H ops create_tables) (SaveChat now uid msg resp)) uid =
        get_chat_history (run H ops create_tables) uid @
        concat (map pair_records (calls_for uid [SaveChat now uid msg resp]))"
    by (rule history_apply_op[OF chat_ids_ok_run[OF chat_ids_ok_init]])
  then have b: "get_chat_history (save_chat (run H ops create_tables) now uid msg resp) uid =
     get_chat_history (run H ops create_tables) uid @
     [[''message'' \<mapsto> PStr msg, ''is_user'' \<mapsto> PInt 1, ''timestamp'' \<mapsto> PStr (fst now)],
      [''message'' \<mapsto> PStr resp, ''is_user'' \<mapsto> PInt 0, ''timestamp'' \<mapsto> PStr (snd now)]]"
    by simp
  from a b show ?thesis by (simp add: length_concat_pairs)
qed

theorem history_after_appends_witness:
  "get_chat_history
     (run sample_digest
        [CreateUser ''alice'' ''pw123'', SaveChat (''t1'', ''t2'') 1 ''q1'' ''a1'',
         SaveChat (''t3'', ''t4'') 2 ''x'' ''y'', SaveChat (''t5'', ''t6'') 1 ''q2'' ''a2'']
        create_tables) 1 =
     [[''message'' \<mapsto> PStr ''q1'', ''is_user'' \<mapsto> PInt 1, ''timestamp'' \<mapsto> PStr ''t1''],
      [''message'' \<mapsto> PStr ''a1'', ''is_user'' \<mapsto> PInt 0, ''timestamp'' \<mapsto> PStr ''t2''],
      [''message'' \<mapsto> PStr ''q2'', ''is_user'' \<mapsto> PInt 1, ''timestamp'' \<mapsto> PStr ''t5''],
      [''message'' \<mapsto> PStr ''a2'', ''is_user'' \<mapsto> PInt 0, ''timestamp'' \<mapsto> PStr ''t6'']] \<and>
   get_chat_history (run sample_digest [CreateUser ''alice'' ''pw123''] create_tables) 1 = []"
proof -
  have a: "get_chat_history
     (run sample_digest
        [CreateUser ''alice'' ''pw123'', SaveChat (''t1'', ''t2'') 1 ''q1'' ''a1'',
         SaveChat (''t3'', ''t4'') 2 ''x'' ''y'', SaveChat (''t5'', ''t6'') 1 ''q2'' ''a2'']
        create_tables) 1 =
     [[''message'' \<mapsto> PStr ''q1'', ''is_user'' \<mapsto> PInt 1, ''timestamp'' \<mapsto> PStr ''t1''],
      [''message'' \<mapsto> PStr ''a1'', ''is_user'' \<mapsto> PInt 0, ''timestamp'' \<mapsto> PStr ''t2''],
      [''message'' \<mapsto> PStr ''q2'', ''is_user'' \<mapsto> PInt 1, ''timestamp'' \<mapsto> PStr ''t5''],
      [''message'' \<mapsto> PStr ''a2'', ''is_user'' \<mapsto> PInt 0, ''timestamp'' \<mapsto> PStr ''t6'']]"
    using history_after_appends [of sample_digest
        "[CreateUser ''alice'' ''pw123'', SaveChat (''t1'', ''t2'') 1 ''q1'' ''a1'',
         SaveChat (''t3'', ''t4'') 2 ''x'' ''y'', SaveChat (''t5'', ''t6'') 1 ''q2'' ''a2'']" 1]
    by simp
  have b: "get_chat_history (run sample_digest [CreateUser ''alice'' ''pw123''] create_tables) 1 = []"
    using history_after_appends [of sample_digest "[CreateUser ''alice'' ''pw123'']" 1]
    by simp
  from a b show ?thesis ..
qed

text \<open>
  C8: for two distinct accounts A and B and any sequence of writes, the history of A
  is the one the sequence without B's \<open>save_chat\<close> calls gives, a further
  \<open>save_chat\<close> for B leaves it as it is, and every row selected for A carries A's id.
\<close>

theorem history_isolated:
  assumes "A \<noteq> B"
  shows "get_chat_history (run H ops create_tables) A =
           get_chat_history (run H (filter (other_than B) ops) create_tables) A \<and>
         get_chat_history (save_chat (run H ops create_tables) now B m r) A =
           get_chat_history (run H ops create_tables) A \<and>
         (\<forall>row \<in> set (select_chat_history (run H ops create_tables) A). c_user_id row = A)"
proof -
  have "get_chat_history (apply_op H (run H ops create_tables) (SaveChat now B m r)) A =
        get_chat_history (run H ops create_tables) A"
    using assms
    by (simp add: history_apply_op[OF chat_ids_ok_run[OF chat_ids_ok_init]] del: apply_op.simps)
  then show ?thesis using assms
    by (simp add: history_run[OF chat_ids_ok_init] calls_for_filter select_chat_history_def)
qed

theorem history_isolated_witness:
  "get_chat_history
     (run sample_digest
        [SaveChat (''t1'', ''t2'') 1 ''q1'' ''a1'', SaveChat (''t3'', ''t4'') 2 ''x'' ''y'']
        create_tables) 1 =
   get_chat_history
     (run sample_digest [SaveChat (''t1'', ''t2'') 1 ''q1'' ''a1''] create_tables) 1 \<and>
   get_chat_history
     (run sample_digest [SaveChat (''t1'', ''t2'') 1 ''q1'' ''a1''] create_tables) 1 =
     [history_record ''q1'' 1 ''t1'', history_record ''a1'' 0 ''t2'']"
proof -
  have ne: "(1::int) \<noteq> 2" by simp
  have a: "get_chat_history
     (run sample_digest
        [SaveChat (''t1'', ''t2'') 1 ''q1'' ''a1'', SaveChat (''t3'', ''t4'') 2 ''x'' ''y'']
        create_tables) 1 =
   get_chat_history
     (run sample_digest [SaveChat (''t1'', ''t2'') 1 ''q1'' ''a1''] create_tables) 1"
    using history_isolated [OF ne, of sample_digest
        "[SaveChat (''t1'', ''t2'') 1 ''q1'' ''a1'', SaveChat (''t3'', ''t4'') 2 ''x'' ''y'']"]
    by simp
  have b: "get_chat_history
     (run sample_digest [SaveChat (''t1'', ''t2'') 1 ''q1'' ''a1''] create_tables) 1 =
     [history_record ''q1'' 1 ''t1'', history_record ''a1'' 0 ''t2'']"
    by (simp add: history_run[OF chat_ids_ok_init] history_empty history_record_def)
  from a b show ?thesis ..
qed

text \<open>
  C4: in every state of the store each row of the message table is either a user row
  directly followed by the assistant row of the same account and the same call, or an
  assistant row directly preceded by its user row. While \<open>save_chat\<close> runs, the
  committed contents, which is what any other reader sees, stay as before until the
  commit and then hold both rows: no state shows half a pair.
\<close>

theorem pairs_never_partial:
  "(\<forall>i < length (tbl_chat_history (run H ops create_tables)).
      (c_is_user (tbl_chat_history (run H ops create_tables) ! i) = 1 \<and>
       user_followed (tbl_chat_history (run H ops create_tables)) i) \<or>
      (c_is_user (tbl_chat_history (run H ops create_tables) ! i) = 0 \<and>
       assistant_preceded (tbl_chat_history (run H ops create_tables)) i)) \<and>
   map committed (save_chat_steps (run H ops create_tables) now uid msg resp) =
     [run H ops create_tables, run H ops create_tables, run H ops create_tables,
      save_chat (run H ops create_tables) now uid msg resp] \<and>
   save_chat (run H ops create_tables) now uid msg resp =
     close (last (save_chat_steps (run H ops create_tables) now uid msg resp)) \<and>
   paired (tbl_chat_history (run H ops create_tables)) \<and>
   paired (tbl_chat_history (save_chat (run H ops create_tables) now uid msg resp))"
proof -
  let ?d = "run H ops create_tables"
  have p: "paired (tbl_chat_history ?d)"
    by (rule paired_run) (simp add: create_tables_def)
  have p': "paired (tbl_chat_history (save_chat ?d now uid msg resp))"
    using paired_apply_op[OF p, of H "SaveChat now uid msg resp"] by simp
  have s: "map committed (save_chat_steps ?d now uid msg resp) =
           [?d, ?d, ?d, save_chat ?d now uid msg resp]"
    by (simp add: save_chat_steps_def save_chat_def Let_def connect_def insert_chat_def
        commit_def close_def)
  from p p' s paired_index[OF p] save_chat_last[of ?d now uid msg resp] show ?thesis
    by blast
qed

theorem pairs_never_partial_witness:
  "assistant_preceded
     (tbl_chat_history
        (run sample_digest
           [SaveChat (''t1'', ''t2'') 1 ''q1'' ''a1'', SaveChat (''t3'', ''t4'') 2 ''x'' ''y'']
           create_tables)) 3 \<and>
   user_followed
     (tbl_chat_history
        (run sample_digest
           [SaveChat (''t1'', ''t2'') 1 ''q1'' ''a1'', SaveChat (''t3'', ''t4'') 2 ''x'' ''y'']
           create_tables)) 2"
proof -
  let ?rows = "tbl_chat_history
        (run sample_digest
           [SaveChat (''t1'', ''t2'') 1 ''q1'' ''a1'', SaveChat (''t3'', ''t4'') 2 ''x'' ''y'']
           create_tables)"
  have rows: "?rows =
      [\<lparr>c_id = 1, c_user_id = 1, c_message = ''q1'', c_is_user = 1, c_timestamp = ''t1''\<rparr>,
       \<lparr>c_id = 2, c_user_id = 1, c_message = ''a1'', c_is_user = 0, c_timestamp = ''t2''\<rparr>,
       \<lparr>c_id = 3, c_user_id = 2, c_message = ''x'', c_is_user = 1, c_timestamp = ''t3''\<rparr>,
       \<lparr>c_id = 4, c_user_id = 2, c_message = ''y'', c_is_user = 0, c_timestamp = ''t4''\<rparr>]"
    by (simp add: run_def save_chat_eq create_tables_def)
  have all: "\<forall>i < length ?rows.
      (c_is_user (?rows ! i) = 1 \<and> user_followed ?rows i) \<or>
      (c_is_user (?rows ! i) = 0 \<and> assistant_preceded ?rows i)"
    using pairs_never_partial [of sample_digest
           "[SaveChat (''t1'', ''t2'') 1 ''q1'' ''a1'', SaveChat (''t3'', ''t4'') 2 ''x'' ''y'']"]
    by blast
  have l: "length ?rows = 4" by (simp add: rows)
  have f3: "c_is_user (?rows ! 3) = 0" by (simp add: rows)
  have f2: "c_is_user (?rows ! 2) = 1" by (simp add: rows)
  from all l have "(c_is_user (?rows ! 3) = 1 \<and> user_followed ?rows 3) \<or>
      (c_is_user (?rows ! 3) = 0 \<and> assistant_preceded ?rows 3)" by simp
  with f3 have a: "assistant_preceded ?rows 3" by simp
  from all l have "(c_is_user (?rows ! 2) = 1 \<and> user_followed ?rows 2) \<or>
      (c_is_user (?rows ! 2) = 0 \<and> assistant_preceded ?rows 2)" by simp
  with f2 have b: "user_followed ?rows 2" by simp
  from a b show ?thesis ..
qed

section \<open>Context builder and the Send handler\<close>

text \<open>
  C10: the in-memory history holds dictionaries of two shapes, the ones
  \<open>get_chat_history\<close> loads (keys message, is_user, timestamp) and the ones the Send
  handler appends (keys message, response). Whenever one of the last three entries has
  the loaded shape, building the context raises \<open>KeyError\<close>: the model is not called,
  and the Send handler ends with that exception and the session state as it was. When
  the last three entries all have one of the two shapes, the missing key is response.
\<close>

theorem store_loaded_history_raises:
  assumes "\<exists>h\<in>set (drop (length history - 3) history). store_shape h"
  shows "(\<exists>key. build_context message (Some history) = Inl (KeyError key) \<and>
            get_response generate message (Some history) = (Inl (KeyError key), []) \<and>
            (ss_user s = Some usr \<and> ss_chat_open s \<and> strip message \<noteq> [] \<and>
             ss_chat_history s = history \<longrightarrow>
               send_handler generate now s message = (Inl (KeyError key), s)) \<and>
            ((\<forall>h\<in>set (drop (length history - 3) history). store_shape h \<or> session_shape h) \<longrightarrow>
               key = ''response'')) \<and>
         (\<forall>h\<in>set (get_chat_history d uid). store_shape h) \<and>
         session_shape (exchange_record msg resp)"
proof -
  from assms have ne: "history \<noteq> []" by auto
  from assms have "\<exists>h\<in>set (drop (length history - 3) history). h ''response'' = None"
    using store_shape_keys by blast
  from context_loop_missing_key[OF this] obtain key
    where loop: "context_loop system_preamble (drop (length history - 3) history) =
                 Inl (KeyError key)"
    by blast
  have b: "build_context message (Some history) = Inl (KeyError key)"
    using ne loop by (simp add: build_context_def Let_def)
  have g: "get_response generate message (Some history) = (Inl (KeyError key), [])"
    using b by (simp add: get_response_def)
  have h: "ss_user s = Some usr \<and> ss_chat_open s \<and> strip message \<noteq> [] \<and>
           ss_chat_history s = history \<longrightarrow>
             send_handler generate now s message = (Inl (KeyError key), s)"
    using g by (auto simp: send_handler_def)
  have k: "(\<forall>h\<in>set (drop (length history - 3) history). store_shape h \<or> session_shape h) \<longrightarrow>
           key = ''response''"
  proof
    assume "\<forall>h\<in>set (drop (length history - 3) history). store_shape h \<or> session_shape h"
    from context_loop_missing_response[OF this assms, of system_preamble] loop
    show "key = ''response''" by simp
  qed
  from b g h k loaded_records_store_shape[of d uid] session_shape_exchange_record[of msg resp]
  show ?thesis by blast
qed

theorem store_loaded_history_raises_witness:
  "store_shape (history_record ''q'' 1 ''t1'') \<and>
   session_shape (exchange_record ''q2'' ''a2'') \<and>
   get_response (\<lambda>p. Inr ''Hello'') ''next''
     (Some [history_record ''q'' 1 ''t1'', history_record ''a'' 0 ''t2'',
            exchange_record ''q2'' ''a2'']) =
     (Inl (KeyError ''response''), [])"
proof -
  let ?history = "[history_record ''q'' 1 ''t1'', history_record ''a'' 0 ''t2'',
                   exchange_record ''q2'' ''a2'']"
  have h1: "\<forall>h\<in>set (drop (length ?history - 3) ?history). store_shape h \<or> session_shape h"
    by (simp add: store_shape_history_record session_shape_exchange_record)
  have h2: "\<exists>h\<in>set (drop (length ?history - 3) ?history). store_shape h"
    by (simp add: store_shape_history_record)
  from store_loaded_history_raises [OF h2, of "''next''" "\<lambda>p. Inr ''Hello''"] h1
  have "get_response (\<lambda>p. Inr ''Hello'') ''next'' (Some ?history) =
          (Inl (KeyError ''response''), [])"
    by blast
  with store_shape_history_record [of "''q''" 1 "''t1''"]
    session_shape_exchange_record [of "''q2''" "''a2''"]
  show ?thesis by blast
qed

text \<open>
  C1 at an input the page produces: a user with one saved exchange logs in, opens the
  popup and sends a message. The history passed to \<open>get_response\<close> is the loaded one,
  and the handler ends with \<open>KeyError\<close> instead of a prompt holding that exchange.
\<close>

theorem loaded_history_breaks_send:
  "fst (send_handler (\<lambda>p. Inr ''Consider teaching.'') (''t3'', ''t4'')
          (toggle_handler
             (snd (login_handler sample_digest
                (initial_session\<lparr>ss_db :=
                   run sample_digest
                     [CreateUser ''alice'' ''pw123'',
                      SaveChat (''t1'', ''t2'') 1 ''What careers suit a biology graduate?''
                        ''Consider biotech.'']
                     create_tables\<rparr>)
                ''alice'' ''pw123'')))
          ''And for a chemist?'') =
     Inl (KeyError ''response'')"
proof -
  let ?G = "\<lambda>p::string. (Inr ''Consider teaching.'' :: error + string)"
  let ?alice = "\<lparr>acc_id = 1, acc_username = ''alice''\<rparr>"
  let ?q = "''What careers suit a biology graduate?''"
  let ?ops = "[CreateUser ''alice'' ''pw123'', SaveChat (''t1'', ''t2'') 1 ?q ''Consider biotech.'']"
  let ?d = "run sample_digest ?ops create_tables"
  let ?hist = "[history_record ?q 1 ''t1'', history_record ''Consider biotech.'' 0 ''t2'']"
  have users: "tbl_users ?d =
      [\<lparr>u_id = 1, u_username = ''alice'', u_password_hash = sample_digest ''pw123''\<rparr>]"
    by (simp add: run_def create_user_cases save_chat_eq create_tables_def)
  have auth: "authenticate_user sample_digest ?d ''alice'' ''pw123'' = Some ?alice"
    by (simp add: authenticate_user_def users hash_password_def)
  have hist: "get_chat_history ?d 1 = ?hist"
    by (simp add: history_run[OF chat_ids_ok_init] history_empty history_record_def)
  let ?s2 = "snd (login_handler sample_digest (initial_session\<lparr>ss_db := ?d\<rparr>) ''alice'' ''pw123'')"
  have s2: "?s2 = initial_session\<lparr>ss_db := ?d, ss_user := Some ?alice, ss_chat_history := ?hist\<rparr>"
    using auth hist by (simp add: login_handler_def initial_session_def)
  have s3: "toggle_handler ?s2 =
      initial_session\<lparr>ss_db := ?d, ss_user := Some ?alice, ss_chat_history := ?hist,
        ss_chat_open := True\<rparr>"
    unfolding s2 by (simp add: toggle_handler_def initial_session_def)
  have b: "build_context ''And for a chemist?'' (Some ?hist) = Inl (KeyError ''response'')"
    by (simp add: build_context_def history_record_def)
  have m: "strip ''And for a chemist?'' \<noteq> []"
    by (simp add: strip_def py_isspace_def)
  show ?thesis
    unfolding s3 using b m by (simp add: send_handler_def get_response_def initial_session_def)
qed

text \<open>
  C7: the Send handler writes to the store only after the model has returned a reply.
  If the handler ends with an exception, or the model call fails, the database and the
  in-memory history are as before; if the database changed, the context was built, the
  model returned a text for it, and what was saved is the message with that reply. And
  when the model does return a text, the message table gains exactly the row of the
  message and the row of the stripped reply.
\<close>

theorem send_saves_only_after_reply:
  assumes "send_handler generate now s msg = (r, s')"
  shows "(\<forall>e. r = Inl e \<longrightarrow> ss_db s' = ss_db s \<and> ss_chat_history s' = ss_chat_history s) \<and>
         (\<forall>prompt e. build_context msg (Some (ss_chat_history s)) = Inr prompt \<and> generate prompt = Inl e \<longrightarrow>
            ss_db s' = ss_db s \<and> ss_chat_history s' = ss_chat_history s) \<and>
         (ss_db s' \<noteq> ss_db s \<longrightarrow>
            (\<exists>usr prompt text. ss_user s = Some usr \<and>
               build_context msg (Some (ss_chat_history s)) = Inr prompt \<and>
               generate prompt = Inr text \<and>
               ss_prompts s' = ss_prompts s @ [prompt] \<and>
               ss_chat_history s' = ss_chat_history s @ [exchange_record msg (strip text)] \<and>
               ss_db s' = save_chat (ss_db s) now (acc_id usr) msg (strip text) \<and>
               r = Inr ())) \<and>
         (\<forall>usr prompt text. ss_user s = Some usr \<and> ss_chat_open s \<and> strip msg \<noteq> [] \<and>
             build_context msg (Some (ss_chat_history s)) = Inr prompt \<and> generate prompt = Inr text \<longrightarrow>
             r = Inr () \<and>
             tbl_chat_history (ss_db s') = tbl_chat_history (ss_db s) @
               [\<lparr>c_id = seq_chat_history (ss_db s) + 1, c_user_id = acc_id usr, c_message = msg,
                 c_is_user = 1, c_timestamp = fst now\<rparr>,
                \<lparr>c_id = seq_chat_history (ss_db s) + 2, c_user_id = acc_id usr,
                 c_message = strip text, c_is_user = 0, c_timestamp = snd now\<rparr>])"
proof -
  have a: "(\<forall>e. r = Inl e \<longrightarrow> ss_db s' = ss_db s \<and> ss_chat_history s' = ss_chat_history s) \<and>
         (\<forall>prompt e. build_context msg (Some (ss_chat_history s)) = Inr prompt \<and> generate prompt = Inl e \<longrightarrow>
            ss_db s' = ss_db s \<and> ss_chat_history s' = ss_chat_history s) \<and>
         (ss_db s' \<noteq> ss_db s \<longrightarrow>
            (\<exists>usr prompt text. ss_user s = Some usr \<and>
               build_context msg (Some (ss_chat_history s)) = Inr prompt \<and>
               generate prompt = Inr text \<and>
               ss_prompts s' = ss_prompts s @ [prompt] \<and>
               ss_chat_history s' = ss_chat_history s @ [exchange_record msg (strip text)] \<and>
               ss_db s' = save_chat (ss_db s) now (acc_id usr) msg (strip text) \<and>
               r = Inr ()))"
    using assms
    by (auto simp: send_handler_def get_response_def split: option.splits sum.splits if_splits)
  have b: "\<forall>usr prompt text. ss_user s = Some usr \<and> ss_chat_open s \<and> strip msg \<noteq> [] \<and>
             build_context msg (Some (ss_chat_history s)) = Inr prompt \<and> generate prompt = Inr text \<longrightarrow>
             r = Inr () \<and>
             tbl_chat_history (ss_db s') = tbl_chat_history (ss_db s) @
               [\<lparr>c_id = seq_chat_history (ss_db s) + 1, c_user_id = acc_id usr, c_message = msg,
                 c_is_user = 1, c_timestamp = fst now\<rparr>,
                \<lparr>c_id = seq_chat_history (ss_db s) + 2, c_user_id = acc_id usr,
                 c_message = strip text, c_is_user = 0, c_timestamp = snd now\<rparr>]"
    using assms
    by (auto simp: send_handler_def get_response_def save_chat_eq)
  note a1 = a[THEN conjunct1] and a2 = a[THEN conjunct2, THEN conjunct1]
    and a3 = a[THEN conjunct2, THEN conjunct2]
  show ?thesis using a1 a2 a3 b by (intro conjI)
qed

theorem send_saves_only_after_reply_witness:
  "send_handler (\<lambda>p. Inl (ModelError ''rate limit'')) (''t1'', ''t2'')
     (initial_session\<lparr>ss_user := Some \<lparr>acc_id = 1, acc_username = ''alice''\<rparr>,
        ss_chat_open := True\<rparr>) ''hi'' =
     (Inl (ModelError ''rate limit''),
      initial_session\<lparr>ss_user := Some \<lparr>acc_id = 1, acc_username = ''alice''\<rparr>,
        ss_chat_open := True,
        ss_prompts := [system_preamble @ ''User: hi'' @ nl @ ''Assistant:'']\<rparr>) \<and>
   ss_db (snd (send_handler (\<lambda>p. Inl (ModelError ''rate limit'')) (''t1'', ''t2'')
     (initial_session\<lparr>ss_user := Some \<lparr>acc_id = 1, acc_username = ''alice''\<rparr>,
        ss_chat_open := True\<rparr>) ''hi'')) = create_tables \<and>
   tbl_chat_history (ss_db (snd (send_handler (\<lambda>p. Inr '' Try biotech. '') (''t1'', ''t2'')
     (initial_session\<lparr>ss_user := Some \<lparr>acc_id = 1, acc_username = ''alice''\<rparr>,
        ss_chat_open := True\<rparr>) ''hi''))) =
     [\<lparr>c_id = 1, c_user_id = 1, c_message = ''hi'', c_is_user = 1, c_timestamp = ''t1''\<rparr>,
      \<lparr>c_id = 2, c_user_id = 1, c_message = ''Try biotech.'', c_is_user = 0,
        c_timestamp = ''t2''\<rparr>]"
proof -
  let ?G = "\<lambda>p::string. (Inl (ModelError ''rate limit'') :: error + string)"
  let ?G2 = "\<lambda>p::string. (Inr '' Try biotech. '' :: error + string)"
  let ?alice = "\<lparr>acc_id = 1, acc_username = ''alice''\<rparr>"
  let ?s = "initial_session\<lparr>ss_user := Some ?alice, ss_chat_open := True\<rparr>"
  let ?P = "system_preamble @ ''User: hi'' @ nl @ ''Assistant:''"
  let ?s' = "initial_session\<lparr>ss_user := Some ?alice, ss_chat_open := True, ss_prompts := [?P]\<rparr>"
  have e: "send_handler ?G (''t1'', ''t2'') ?s ''hi'' = (Inl (ModelError ''rate limit''), ?s')"
    by (simp add: send_handler_def get_response_def build_context_def initial_session_def
        strip_def py_isspace_def)
  from send_saves_only_after_reply [OF e] have "ss_db ?s' = ss_db ?s"
    by blast
  then have u: "ss_db (snd (send_handler ?G (''t1'', ''t2'') ?s ''hi'')) = create_tables"
    unfolding e by (simp add: initial_session_def)
  let ?r2 = "fst (send_handler ?G2 (''t1'', ''t2'') ?s ''hi'')"
  let ?s2 = "snd (send_handler ?G2 (''t1'', ''t2'') ?s ''hi'')"
  have e2: "send_handler ?G2 (''t1'', ''t2'') ?s ''hi'' = (?r2, ?s2)"
    by simp
  have pre: "ss_user ?s = Some ?alice \<and> ss_chat_open ?s \<and> strip ''hi'' \<noteq> [] \<and>
             build_context ''hi'' (Some (ss_chat_history ?s)) = Inr ?P \<and>
             ?G2 ?P = Inr '' Try biotech. ''"
    by (simp add: initial_session_def build_context_def strip_def py_isspace_def)
  note t = send_saves_only_after_reply [OF e2, THEN conjunct2, THEN conjunct2, THEN conjunct2,
      rule_format, OF pre, THEN conjunct2]
  have st: "strip '' Try biotech. '' = ''Try biotech.''"
    by (simp add: strip_def py_isspace_def)
  have v: "tbl_chat_history (ss_db ?s2) =
     [\<lparr>c_id = 1, c_user_id = 1, c_message = ''hi'', c_is_user = 1, c_timestamp = ''t1''\<rparr>,
      \<lparr>c_id = 2, c_user_id = 1, c_message = ''Try biotech.'', c_is_user = 0,
        c_timestamp = ''t2''\<rparr>]"
    unfolding t st by (simp add: initial_session_def create_tables_def)
  show ?thesis using e u v by (intro conjI)
qed

end
